theory Spec2Isabelle
  imports Main "HOL-Library.Char_ord" "HOL-Library.List_Lexorder"
begin

section \<open>Run-time failures of the Go code\<close>

text \<open>
  A Go panic is a value of the model: every function that can panic returns
  \<open>panic + 'a\<close>, with \<open>Inl\<close> for the panic.
\<close>

datatype panic =
    NilPointerDereference
  | SliceBoundsOutOfRange
  | NegativeRepeatCount

text \<open>Go's \<open>int\<close> is 64 bits wide and signed; sums and differences wrap around.\<close>

definition wrap64 :: "int \<Rightarrow> int" where
  "wrap64 x = (x + 2 ^ 63) mod 2 ^ 64 - 2 ^ 63"

section \<open>Semantic versions and constraints (package subscription)\<close>

record Version =
  Major :: int
  Minor :: int
  Patch :: int
  Pre :: string

text \<open>
  \<open>Version.Compare\<close>: -1, 0 or 1. The pre-release tags are Go strings, compared byte
  by byte, which is the lexicographic order on \<open>char list\<close>.
\<close>

definition Compare :: "Version \<Rightarrow> Version \<Rightarrow> int" where
  "Compare v other =
     (if Major v \<noteq> Major other then (if Major v < Major other then -1 else 1)
      else if Minor v \<noteq> Minor other then (if Minor v < Minor other then -1 else 1)
      else if Patch v \<noteq> Patch other then (if Patch v < Patch other then -1 else 1)
      else if Pre v \<noteq> [] \<and> Pre other = [] then -1
      else if Pre v = [] \<and> Pre other \<noteq> [] then 1
      else if Pre v < Pre other then -1
      else if Pre v > Pre other then 1
      else 0)"

text \<open>
  A \<open>*Constraint\<close> may be nil and so may its \<open>Version\<close> field; both are options.
  The receiver check comes first, so a nil version argument only panics when there is
  a constraint to compare it with.
\<close>

record Constraint =
  Op :: string
  CVersion :: "Version option"

definition Matches :: "Constraint option \<Rightarrow> Version option \<Rightarrow> panic + bool" where
  "Matches c v =
     (case c of
        None \<Rightarrow> Inr True
      | Some c' \<Rightarrow>
          (case CVersion c' of
             None \<Rightarrow> Inr True
           | Some cv \<Rightarrow>
               (case v of
                  None \<Rightarrow> Inl NilPointerDereference
                | Some v' \<Rightarrow>
                    (let cmp = Compare v' cv in
                     if Op c' = ''>='' then Inr (cmp \<ge> 0)
                     else if Op c' = ''>'' then Inr (cmp > 0)
                     else if Op c' = ''<='' then Inr (cmp \<le> 0)
                     else if Op c' = ''<'' then Inr (cmp < 0)
                     else if Op c' = ''='' then Inr (cmp = 0)
                     else if Op c' = ''~'' then
                       (if cmp < 0 then Inr False
                        else Inr (Major v' = Major cv \<and> Minor v' = Minor cv))
                     else if Op c' = ''^'' then
                       (if cmp < 0 then Inr False
                        else if Major cv = 0 then
                          Inr (Major v' = Major cv \<and> Minor v' = Minor cv)
                        else Inr (Major v' = Major cv))
                     else Inr (cmp = 0)))))"

section \<open>Update policy (package subscription, Updater)\<close>

record UpdatePolicy =
  Automatic :: bool
  RequireApproval :: "string list"
  NotifyOn :: "string list"

record PendingUpdate =
  Pattern :: string
  CurrentVersion :: string
  AvailableVersion :: string
  ChangeType :: string
  Description :: string

text \<open>
  The loop of \<open>ShouldAutoApply\<close> over \<open>policy.RequireApproval\<close>: false at the first
  entry equal to the update's change type, true when the list is exhausted.
\<close>

fun requireApproval_loop :: "string list \<Rightarrow> PendingUpdate \<Rightarrow> bool" where
  "requireApproval_loop [] update = True"
| "requireApproval_loop (requireApproval # rest) update =
     (if requireApproval = ChangeType update then False
      else requireApproval_loop rest update)"

text \<open>
  \<open>ShouldAutoApply\<close>. The guard is \<open>policy == nil || policy.Automatic\<close>; inside it the
  range expression \<open>policy.RequireApproval\<close> reads a field through the pointer, which
  panics when the pointer is nil.
\<close>

definition ShouldAutoApply :: "PendingUpdate \<Rightarrow> UpdatePolicy option \<Rightarrow> panic + bool" where
  "ShouldAutoApply update policy =
     (if (case policy of None \<Rightarrow> True | Some p \<Rightarrow> Automatic p) then
        (case policy of
           None \<Rightarrow> Inl NilPointerDereference
         | Some p \<Rightarrow> Inr (requireApproval_loop (RequireApproval p) update))
      else Inr False)"

text \<open>\<open>ShouldNotify\<close>, the sibling that tests for nil before anything else.\<close>

fun notifyOn_loop :: "string list \<Rightarrow> PendingUpdate \<Rightarrow> bool" where
  "notifyOn_loop [] update = False"
| "notifyOn_loop (notifyOn # rest) update =
     (if notifyOn = ChangeType update \<or> notifyOn = ''all'' then True
      else notifyOn_loop rest update)"

definition ShouldNotify :: "PendingUpdate \<Rightarrow> UpdatePolicy option \<Rightarrow> bool" where
  "ShouldNotify update policy =
     (case policy of None \<Rightarrow> False | Some p \<Rightarrow> notifyOn_loop (NotifyOn p) update)"

section \<open>Theorems: versions and update policy\<close>

lemma Compare_no_pre:
  "Compare \<lparr>Major = W, Minor = U, Patch = V, Pre = []\<rparr>
           \<lparr>Major = X, Minor = Y, Patch = Z, Pre = []\<rparr> < 0
   \<longleftrightarrow> W < X \<or> (W = X \<and> (U < Y \<or> (U = Y \<and> V < Z)))"
  by (auto simp: Compare_def)

text \<open>
  C8. For versions \<open>W.U.V\<close> and \<open>X.Y.Z\<close> without pre-release tags, with \<open>X\<close> a parsed
  (hence non-negative) major number, the constraint \<open>^X.Y.Z\<close> is satisfied by \<open>W.U.V\<close>
  if and only if \<open>X > 0\<close>, \<open>W = X\<close> and \<open>(U, V) \<ge> (Y, Z)\<close> lexicographically, or \<open>X = 0\<close>,
  \<open>W = X\<close>, \<open>U = Y\<close> and \<open>V \<ge> Z\<close>.
\<close>

theorem caret_constraint_law:
  assumes "0 \<le> X"
  shows "Matches (Some \<lparr>Op = ''^'',
                         CVersion = Some \<lparr>Major = X, Minor = Y, Patch = Z, Pre = []\<rparr>\<rparr>)
                 (Some \<lparr>Major = W, Minor = U, Patch = V, Pre = []\<rparr>)
         = Inr ((0 < X \<and> W = X \<and> (Y < U \<or> (U = Y \<and> Z \<le> V)))
                \<or> (X = 0 \<and> W = X \<and> U = Y \<and> Z \<le> V))"
proof -
  let ?c = "\<lparr>Major = X, Minor = Y, Patch = Z, Pre = []\<rparr>"
  let ?v = "\<lparr>Major = W, Minor = U, Patch = V, Pre = []\<rparr>"
  have lt: "Compare ?v ?c < 0 \<longleftrightarrow> W < X \<or> (W = X \<and> (U < Y \<or> (U = Y \<and> V < Z)))"
    by (rule Compare_no_pre)
  show ?thesis
  proof (cases "Compare ?v ?c < 0")
    case True
    with lt assms show ?thesis
      by (auto simp: Matches_def Let_def)
  next
    case False
    with lt assms show ?thesis
      by (auto simp: Matches_def Let_def)
  qed
qed

theorem caret_constraint_law_witness:
  "(0::int) \<le> 1
   \<and> Matches (Some \<lparr>Op = ''^'',
                      CVersion = Some \<lparr>Major = 1, Minor = 2, Patch = 3, Pre = []\<rparr>\<rparr>)
              (Some \<lparr>Major = 1, Minor = 5, Patch = 0, Pre = []\<rparr>) = Inr True
   \<and> Matches (Some \<lparr>Op = ''^'',
                      CVersion = Some \<lparr>Major = 1, Minor = 2, Patch = 3, Pre = []\<rparr>\<rparr>)
              (Some \<lparr>Major = 2, Minor = 0, Patch = 0, Pre = []\<rparr>) = Inr False"
  using caret_constraint_law [of 1 2 3 1 5 0] caret_constraint_law [of 1 2 3 2 0 0]
  by simp

lemma requireApproval_loop_iff:
  "requireApproval_loop rs update \<longleftrightarrow> ChangeType update \<notin> set rs"
  by (induction rs) auto

lemma ShouldAutoApply_policy:
  "ShouldAutoApply update (Some p)
   = Inr (Automatic p \<and> ChangeType update \<notin> set (RequireApproval p))"
  by (simp add: ShouldAutoApply_def requireApproval_loop_iff)

text \<open>
  C9. With no policy, \<open>ShouldAutoApply\<close> does not return false: the nil test lets the
  call into the branch that reads \<open>policy.RequireApproval\<close>, and the call panics, for
  every pending update.
\<close>

theorem ShouldAutoApply_nil_policy_panics:
  "ShouldAutoApply update None = Inl NilPointerDereference"
  by (simp add: ShouldAutoApply_def)

end
